theory Spec2Isabelle
  imports Complex_Main "HOL-Library.Char_ord" "HOL-Library.List_Lexorder" "HOL-Library.AList"
begin

section \<open>Shared vocabulary of the strategies\<close>

text \<open>
  A strategy configuration and a market-data snapshot are Python dictionaries from
  names to numbers. Python floats are read as real numbers; an integer-valued
  parameter (a period, a number of levels) is a number that is an integer.
\<close>

type_synonym config = "string \<rightharpoonup> real"
type_synonym market_data = "string \<rightharpoonup> real"

definition dict_get :: "(string \<rightharpoonup> real) \<Rightarrow> string \<Rightarrow> real \<Rightarrow> real" where
  "dict_get d k dflt = (case d k of None \<Rightarrow> dflt | Some v \<Rightarrow> v)"

definition is_integral :: "real \<Rightarrow> bool" where
  "is_integral r = (of_int \<lfloor>r\<rfloor> = r)"

datatype trade_signal = BUY | SELL | HOLD

datatype strategy_status = ACTIVE | PAUSED | STOPPED | ERROR

text \<open>
  The fields of \<open>BaseStrategy\<close>. \<open>trade_log\<close> stands for the line that
  \<open>log_trade\<close> writes: signal, quantity and price of each logged trade, oldest first.
  The clock reading kept in \<open>last_execution\<close> is left out.
\<close>

record base_strategy =
  config :: config
  status :: strategy_status
  total_trades :: nat
  total_pnl :: real
  is_running :: bool
  trade_log :: "(trade_signal \<times> real \<times> real) list"

definition log_trade ::
  "trade_signal \<Rightarrow> real \<Rightarrow> real \<Rightarrow> 'a base_strategy_scheme \<Rightarrow> 'a base_strategy_scheme" where
  "log_trade signal quantity price st =
     st\<lparr>total_trades := total_trades st + 1,
        total_pnl := total_pnl st + 0,
        trade_log := trade_log st @ [(signal, quantity, price)]\<rparr>"

text \<open>
  Each of the three variants adds a signed net position, \<open>current_position\<close>, set
  to \<open>0.0\<close> by its constructor.
\<close>

record sized_strategy = base_strategy +
  current_position :: real

section \<open>Grid strategy\<close>

datatype level_type = Buy | Sell

record grid_level =
  price :: real
  type :: level_type
  filled :: bool
  order_id :: "string option"

record grid_strategy = sized_strategy +
  grid_levels :: "grid_level list"
  base_price :: real
  grid_spacing :: real

definition grid_init :: "config \<Rightarrow> grid_strategy" where
  "grid_init cfg =
     \<lparr>config = cfg, status = STOPPED, total_trades = 0, total_pnl = 0,
      is_running = False, trade_log = [], current_position = 0,
      grid_levels = [], base_price = 0, grid_spacing = 0\<rparr>"

definition make_level :: "real \<Rightarrow> real \<Rightarrow> int \<Rightarrow> grid_level" where
  "make_level bp sp i =
     \<lparr>price = bp + of_int i * sp,
      type = (if i < 0 then Buy else Sell),
      filled = False,
      order_id = None\<rparr>"

text \<open>
  \<open>initialize\<close>: \<open>range\<close> raises on a number of levels that is not an integer, after
  the ladder has been emptied; the handler turns that into \<open>False\<close>.
\<close>

definition grid_initialize :: "grid_strategy \<Rightarrow> bool \<times> grid_strategy" where
  "grid_initialize st =
     (let bp = dict_get (config st) ''base_price'' 0;
          sp = dict_get (config st) ''grid_spacing'' 0;
          num_levels = dict_get (config st) ''num_levels'' 10;
          st1 = st\<lparr>base_price := bp, grid_spacing := sp\<rparr>
      in if bp \<le> 0 \<or> sp \<le> 0 \<or> num_levels \<le> 0 then (False, st1)
         else if \<not> is_integral num_levels then (False, st1\<lparr>grid_levels := []\<rparr>)
         else
           let n = \<lfloor>num_levels\<rfloor>;
               levels = filter (\<lambda>l. price l > 0) (map (make_level bp sp) [- n..n])
           in (True, st1\<lparr>grid_levels := sort_key price levels\<rparr>))"


text \<open>
  The search loop of \<open>execute\<close>: the unfilled level nearest to the price, the first
  one among equally near levels. \<open>None\<close> is the loop's start, no level and an
  infinite distance.
\<close>

fun closest_unfilled ::
  "real \<Rightarrow> grid_level list \<Rightarrow> nat \<Rightarrow> (nat \<times> grid_level \<times> real) option
     \<Rightarrow> (nat \<times> grid_level \<times> real) option" where
  "closest_unfilled p [] i best = best"
| "closest_unfilled p (l # ls) i best =
     (if \<not> filled l then
        (let distance = \<bar>p - price l\<bar>
         in case best of
              None \<Rightarrow> closest_unfilled p ls (Suc i) (Some (i, l, distance))
            | Some (j, c, min_distance) \<Rightarrow>
                if distance < min_distance
                then closest_unfilled p ls (Suc i) (Some (i, l, distance))
                else closest_unfilled p ls (Suc i) best)
      else closest_unfilled p ls (Suc i) best)"

text \<open>
  \<open>calculate_position_size\<close> of the grid: a zero price raises in the division, and
  the handler returns \<open>0.0\<close> with the position untouched.
\<close>

definition grid_calculate_position_size ::
  "grid_strategy \<Rightarrow> trade_signal \<Rightarrow> market_data \<Rightarrow> real \<times> grid_strategy" where
  "grid_calculate_position_size st signal md =
     (let base_amount = dict_get (config st) ''base_amount'' 100;
          current_price = dict_get md ''price'' 1
      in if current_price = 0 then (0, st)
         else
           let quantity = base_amount / current_price;
               max_position = dict_get (config st) ''max_position'' 1000;
               quantity = (if current_position st + quantity > max_position
                           then max_position - current_position st else quantity)
           in (quantity,
               if signal = BUY
               then st\<lparr>current_position := current_position st + quantity\<rparr>
               else st\<lparr>current_position := current_position st - quantity\<rparr>))"

definition grid_fill ::
  "grid_strategy \<Rightarrow> market_data \<Rightarrow> nat \<Rightarrow> grid_level \<Rightarrow> trade_signal \<Rightarrow> real
     \<Rightarrow> trade_signal option \<times> grid_strategy" where
  "grid_fill st md i lvl signal current_price =
     (let st1 = st\<lparr>grid_levels := (grid_levels st)[i := lvl\<lparr>filled := True\<rparr>]\<rparr>;
          (quantity, st2) = grid_calculate_position_size st1 signal md
      in (Some signal, log_trade signal quantity current_price st2))"

definition grid_execute ::
  "grid_strategy \<Rightarrow> market_data \<Rightarrow> trade_signal option \<times> grid_strategy" where
  "grid_execute st md =
     (if \<not> is_running st then (None, st)
      else
        let current_price = dict_get md ''price'' 0
        in if current_price \<le> 0 then (None, st)
           else
             case closest_unfilled current_price (grid_levels st) 0 None of
               None \<Rightarrow> (None, st)
             | Some (i, lvl, min_distance) \<Rightarrow>
                 if min_distance
                      \<le> dict_get (config st) ''trigger_threshold'' (grid_spacing st * (1 / 10))
                 then
                   if type lvl = Buy \<and> current_price \<le> price lvl
                   then grid_fill st md i lvl BUY current_price
                   else if type lvl = Sell \<and> current_price \<ge> price lvl
                   then grid_fill st md i lvl SELL current_price
                   else (None, st)
                 else (None, st))"

definition grid_validate_config :: "config \<Rightarrow> bool" where
  "grid_validate_config cfg =
     (case (cfg ''base_price'', cfg ''grid_spacing'', cfg ''num_levels'', cfg ''base_amount'') of
        (Some bp, Some sp, Some num_levels, Some base_amount) \<Rightarrow>
          if bp \<le> 0 then False
          else if sp \<le> 0 then False
          else if num_levels \<le> 0 \<or> num_levels > 100 then False
          else if base_amount \<le> 0 then False
          else if bp - num_levels * sp \<le> 0 then False
          else True
      | _ \<Rightarrow> False)"

text \<open>\<open>BaseStrategy.start\<close> for the grid: validation, then initialisation.\<close>

definition grid_start :: "grid_strategy \<Rightarrow> bool \<times> grid_strategy" where
  "grid_start st =
     (if grid_validate_config (config st) then
        (let (ok, st1) = grid_initialize st
         in if ok then (True, st1\<lparr>status := ACTIVE, is_running := True\<rparr>)
            else (False, st1))
      else (False, st))"

text \<open>The configuration of the end-to-end grid scenario.\<close>

definition grid_scenario_config :: config where
  "grid_scenario_config =
     [''base_price'' \<mapsto> 50000, ''grid_spacing'' \<mapsto> 1000, ''num_levels'' \<mapsto> 2,
      ''base_amount'' \<mapsto> 100, ''trigger_threshold'' \<mapsto> 50]"

section \<open>Python lists, deques and floats\<close>

text \<open>\<open>deque(maxlen=n).append(x)\<close>: the oldest entries fall out on the left.\<close>

definition deque_append :: "nat \<Rightarrow> 'a list \<Rightarrow> 'a \<Rightarrow> 'a list" where
  "deque_append maxlen xs x = (let ys = xs @ [x] in drop (length ys - maxlen) ys)"

text \<open>
  The slice \<open>xs[-k:]\<close> for an integer \<open>k\<close>: the last \<open>k\<close> entries when \<open>k\<close> is
  positive (all of them when there are fewer), the whole list when \<open>k = 0\<close>, and
  \<open>xs[|k|:]\<close> when \<open>k\<close> is negative.
\<close>

definition slice_last :: "int \<Rightarrow> 'a list \<Rightarrow> 'a list" where
  "slice_last k xs =
     (if k > 0 then drop (length xs - nat k) xs
      else if k = 0 then xs
      else drop (nat (- k)) xs)"

text \<open>
  A float that may be \<open>nan\<close> or \<open>+inf\<close>. \<open>numpy.mean\<close> of an empty list is
  \<open>nan\<close> (with a warning, not an exception), and a positive numpy float divided by
  zero is \<open>+inf\<close>. Every comparison with \<open>nan\<close> is false.
\<close>

datatype pyfloat = Nan | PInf | Num real

definition pf_le :: "pyfloat \<Rightarrow> real \<Rightarrow> bool" where
  "pf_le x r = (case x of Nan \<Rightarrow> False | PInf \<Rightarrow> False | Num d \<Rightarrow> d \<le> r)"

definition pf_ge :: "pyfloat \<Rightarrow> real \<Rightarrow> bool" where
  "pf_ge x r = (case x of Nan \<Rightarrow> False | PInf \<Rightarrow> True | Num d \<Rightarrow> d \<ge> r)"

definition np_mean :: "real list \<Rightarrow> pyfloat" where
  "np_mean xs = (if xs = [] then Nan else Num (sum_list xs / real (length xs)))"

section \<open>Mean-reversion strategy\<close>

text \<open>
  The two deques of moving averages that \<open>execute\<close> fills are written only, never
  read by \<open>execute\<close> or \<open>calculate_position_size\<close>; they are left out of the state.
\<close>

record windowed_strategy = sized_strategy +
  price_history :: "real list"

record mean_reversion_strategy = windowed_strategy +
  last_signal :: "trade_signal option"

definition mr_init :: "config \<Rightarrow> mean_reversion_strategy" where
  "mr_init cfg =
     \<lparr>config = cfg, status = STOPPED, total_trades = 0, total_pnl = 0,
      is_running = False, trade_log = [], current_position = 0,
      price_history = [], last_signal = None\<rparr>"

text \<open>
  The quantity that \<open>calculate_position_size\<close> computes at a non-zero price: the
  base quantity, scaled by the size of the configured buy threshold, cut to the room
  left up to \<open>max_position\<close> (BUY) or down to \<open>- max_position\<close> (any other
  signal), and never negative.
\<close>

definition mr_sized_quantity ::
  "mean_reversion_strategy \<Rightarrow> trade_signal \<Rightarrow> real \<Rightarrow> real" where
  "mr_sized_quantity st signal current_price =
     (let base_amount = dict_get (config st) ''base_amount'' 100;
          quantity = base_amount / current_price;
          deviation = dict_get (config st) ''buy_threshold'' (- (2 / 100));
          quantity = (if \<bar>deviation\<bar> > 5 / 100 then quantity * (3 / 2)
                      else if \<bar>deviation\<bar> < 1 / 100 then quantity * (1 / 2)
                      else quantity);
          max_position = dict_get (config st) ''max_position'' 1000;
          quantity =
            (if signal = BUY then
               (if current_position st + quantity > max_position
                then max_position - current_position st else quantity)
             else
               (if current_position st - quantity < - max_position
                then current_position st + max_position else quantity))
      in max 0 quantity)"

text \<open>
  \<open>calculate_position_size\<close>: a zero price raises in the division, and the handler
  returns \<open>0.0\<close> with the position untouched; otherwise the position moves by the
  quantity.
\<close>

definition mr_calculate_position_size ::
  "mean_reversion_strategy \<Rightarrow> trade_signal \<Rightarrow> market_data \<Rightarrow> real \<times> mean_reversion_strategy" where
  "mr_calculate_position_size st signal md =
     (let current_price = dict_get md ''price'' 1
      in if current_price = 0 then (0, st)
         else
           let quantity = mr_sized_quantity st signal current_price
           in (quantity,
               if signal = BUY
               then st\<lparr>current_position := current_position st + quantity\<rparr>
               else if signal = SELL
               then st\<lparr>current_position := current_position st - quantity\<rparr>
               else st))"

text \<open>
  The signal decision of \<open>execute\<close>, from the deviation of the price from the long
  moving average. With a \<open>nan\<close> deviation both comparisons fail and the last branch
  is taken. (The price is positive where the deviation is computed, so a zero average
  gives \<open>+inf\<close>.)
\<close>

definition mr_decide ::
  "mean_reversion_strategy \<Rightarrow> pyfloat \<Rightarrow> trade_signal option \<times> mean_reversion_strategy" where
  "mr_decide st deviation =
     (let buy_threshold = dict_get (config st) ''buy_threshold'' (- (2 / 100));
          sell_threshold = dict_get (config st) ''sell_threshold'' (2 / 100);
          max_position = dict_get (config st) ''max_position'' 1000
      in if pf_le deviation buy_threshold \<and> current_position st < max_position
         then (if last_signal st \<noteq> Some BUY
               then (Some BUY, st\<lparr>last_signal := Some BUY\<rparr>) else (None, st))
         else if pf_ge deviation sell_threshold \<and> current_position st > - max_position
         then (if last_signal st \<noteq> Some SELL
               then (Some SELL, st\<lparr>last_signal := Some SELL\<rparr>) else (None, st))
         else (Some HOLD, st\<lparr>last_signal := None\<rparr>))"

text \<open>
  What a tick's deviation is: \<open>Skipped\<close> when \<open>execute\<close> returns before computing
  one (strategy not running, no positive price, too little history, a period that
  cannot be used as a slice bound), otherwise the computed value.
\<close>

datatype tick_deviation = Skipped | Computed pyfloat

definition mr_deviation :: "mean_reversion_strategy \<Rightarrow> market_data \<Rightarrow> tick_deviation" where
  "mr_deviation st md =
     (if \<not> is_running st then Skipped
      else
        let current_price = dict_get md ''price'' 0
        in if current_price \<le> 0 then Skipped
           else
             let history = deque_append 200 (price_history st) current_price;
                 short_period = dict_get (config st) ''short_period'' 20;
                 long_period = dict_get (config st) ''long_period'' 50
             in if real (length history) < long_period then Skipped
                else if real (length history) \<ge> short_period \<and> \<not> is_integral short_period
                then Skipped
                else if \<not> is_integral long_period then Skipped
                else
                  case np_mean (slice_last \<lfloor>long_period\<rfloor> history) of
                    Num long_sma \<Rightarrow>
                      if long_sma = 0 then Computed PInf
                      else Computed (Num ((current_price - long_sma) / long_sma))
                  | _ \<Rightarrow> Computed Nan)"

definition mr_execute ::
  "mean_reversion_strategy \<Rightarrow> market_data \<Rightarrow> trade_signal option \<times> mean_reversion_strategy" where
  "mr_execute st md =
     (if \<not> is_running st then (None, st)
      else
        let current_price = dict_get md ''price'' 0
        in if current_price \<le> 0 then (None, st)
           else
             let st1 = st\<lparr>price_history := deque_append 200 (price_history st) current_price\<rparr>
             in case mr_deviation st md of
                  Skipped \<Rightarrow> (None, st1)
                | Computed deviation \<Rightarrow>
                    (case mr_decide st1 deviation of
                       (Some BUY, st2) \<Rightarrow>
                         (let (quantity, st3) = mr_calculate_position_size st2 BUY md
                          in (Some BUY, log_trade BUY quantity current_price st3))
                     | (Some SELL, st2) \<Rightarrow>
                         (let (quantity, st3) = mr_calculate_position_size st2 SELL md
                          in (Some SELL, log_trade SELL quantity current_price st3))
                     | (signal, st2) \<Rightarrow> (signal, st2)))"

definition mr_validate_config :: "config \<Rightarrow> bool" where
  "mr_validate_config cfg =
     (case (cfg ''short_period'', cfg ''long_period'', cfg ''buy_threshold'',
            cfg ''sell_threshold'', cfg ''base_amount'') of
        (Some short_period, Some long_period, Some buy_threshold, Some sell_threshold,
         Some base_amount) \<Rightarrow>
          if short_period \<le> 0 \<or> long_period \<le> 0 then False
          else if short_period \<ge> long_period then False
          else if buy_threshold \<ge> 0 \<or> sell_threshold \<le> 0 then False
          else if \<bar>buy_threshold\<bar> > 1 / 2 \<or> \<bar>sell_threshold\<bar> > 1 / 2 then False
          else if base_amount \<le> 0 then False
          else True
      | _ \<Rightarrow> False)"

text \<open>\<open>initialize\<close> clears the price window; \<open>start\<close> validates first.\<close>

definition mr_initialize :: "mean_reversion_strategy \<Rightarrow> bool \<times> mean_reversion_strategy" where
  "mr_initialize st = (True, st\<lparr>price_history := []\<rparr>)"

definition mr_start :: "mean_reversion_strategy \<Rightarrow> bool \<times> mean_reversion_strategy" where
  "mr_start st =
     (if mr_validate_config (config st) then
        (let (ok, st1) = mr_initialize st
         in if ok then (True, st1\<lparr>status := ACTIVE, is_running := True\<rparr>)
            else (False, st1))
      else (False, st))"

text \<open>
  A run of \<open>execute\<close> over successive ticks: for each tick, its deviation and the
  signal returned.
\<close>

fun mr_run ::
  "mean_reversion_strategy \<Rightarrow> market_data list \<Rightarrow> (tick_deviation \<times> trade_signal option) list" where
  "mr_run st [] = []"
| "mr_run st (md # mds) =
     (mr_deviation st md, fst (mr_execute st md)) # mr_run (snd (mr_execute st md)) mds"

text \<open>A tick whose computed deviation is not at or below the threshold \<open>thr\<close>.\<close>

definition above_threshold :: "real \<Rightarrow> tick_deviation \<Rightarrow> bool" where
  "above_threshold thr dev =
     (case dev of Skipped \<Rightarrow> False | Computed x \<Rightarrow> \<not> pf_le x thr)"

definition mr_buy_threshold :: "mean_reversion_strategy \<Rightarrow> real" where
  "mr_buy_threshold st = dict_get (config st) ''buy_threshold'' (- (2 / 100))"

definition mr_sell_threshold :: "mean_reversion_strategy \<Rightarrow> real" where
  "mr_sell_threshold st = dict_get (config st) ''sell_threshold'' (2 / 100)"

text \<open>
  The state in which no BUY can be emitted: the last signal was BUY, or the position
  has no room left below \<open>max_position\<close>.
\<close>

definition mr_latched :: "mean_reversion_strategy \<Rightarrow> bool" where
  "mr_latched st =
     (last_signal st = Some BUY \<or>
      current_position st \<ge> dict_get (config st) ''max_position'' 1000)"

text \<open>A small configuration and three ticks, for running the strategy.\<close>

definition mr_example_config :: config where
  "mr_example_config =
     [''short_period'' \<mapsto> 1, ''long_period'' \<mapsto> 2, ''buy_threshold'' \<mapsto> - (2 / 100),
      ''sell_threshold'' \<mapsto> 2 / 100, ''base_amount'' \<mapsto> 100]"

definition mr_example_state :: mean_reversion_strategy where
  "mr_example_state =
     snd (mr_execute (snd (mr_start (mr_init mr_example_config))) [''price'' \<mapsto> 100])"

section \<open>Momentum strategy\<close>

text \<open>
  The state that \<open>_calculate_rsi\<close> and \<open>calculate_position_size\<close> read: the price
  window, the stored RSI values and the trend direction (\<open>None\<close> when flat).
\<close>

datatype trend = Up | Down

record momentum_strategy = windowed_strategy +
  rsi_values :: "pyfloat list"
  trend_direction :: "trend option"

definition momentum_init :: "config \<Rightarrow> momentum_strategy" where
  "momentum_init cfg =
     \<lparr>config = cfg, status = STOPPED, total_trades = 0, total_pnl = 0,
      is_running = False, trade_log = [], current_position = 0,
      price_history = [], rsi_values = [], trend_direction = None\<rparr>"

text \<open>The loop of \<open>_calculate_rsi\<close>: the change from each price to the next.\<close>

fun price_changes :: "real list \<Rightarrow> real list" where
  "price_changes (a # b # rest) = (b - a) # price_changes (b # rest)"
| "price_changes _ = []"

definition gains_of :: "real list \<Rightarrow> real list" where
  "gains_of changes = map (\<lambda>change. if change > 0 then change else 0) changes"

definition losses_of :: "real list \<Rightarrow> real list" where
  "losses_of changes = map (\<lambda>change. if change > 0 then 0 else \<bar>change\<bar>) changes"

text \<open>
  \<open>_calculate_rsi\<close>. \<open>None\<close> is Python's \<open>None\<close>: too few samples, or a period
  that cannot bound a slice (the exception is caught). An average over an empty slice
  is \<open>nan\<close>, which is not equal to zero and makes the result \<open>nan\<close>.
\<close>

definition calculate_rsi :: "momentum_strategy \<Rightarrow> pyfloat option" where
  "calculate_rsi st =
     (let period = dict_get (config st) ''rsi_period'' 14;
          prices = price_history st
      in if real (length prices) < period + 1 then None
         else
           let gains = gains_of (price_changes prices);
               losses = losses_of (price_changes prices)
           in if real (length gains) < period then None
              else if \<not> is_integral period then None
              else
                case (np_mean (slice_last \<lfloor>period\<rfloor> gains),
                      np_mean (slice_last \<lfloor>period\<rfloor> losses)) of
                  (Num avg_gain, Num avg_loss) \<Rightarrow>
                    if avg_loss = 0 then Some (Num 100)
                    else Some (Num (100 - 100 / (1 + avg_gain / avg_loss)))
                | (_, Num avg_loss) \<Rightarrow>
                    if avg_loss = 0 then Some (Num 100) else Some Nan
                | _ \<Rightarrow> Some Nan)"

definition pf_lt :: "pyfloat \<Rightarrow> real \<Rightarrow> bool" where
  "pf_lt x r = (case x of Nan \<Rightarrow> False | PInf \<Rightarrow> False | Num d \<Rightarrow> d < r)"

definition pf_gt :: "pyfloat \<Rightarrow> real \<Rightarrow> bool" where
  "pf_gt x r = (case x of Nan \<Rightarrow> False | PInf \<Rightarrow> True | Num d \<Rightarrow> d > r)"

text \<open>
  The quantity that the momentum \<open>calculate_position_size\<close> computes at a non-zero
  price: scaled by the last stored RSI and by a trade that follows the trend, then cut
  to the room left and made non-negative, as in the mean-reversion strategy.
\<close>

definition momentum_sized_quantity ::
  "momentum_strategy \<Rightarrow> trade_signal \<Rightarrow> real \<Rightarrow> real" where
  "momentum_sized_quantity st signal current_price =
     (let base_amount = dict_get (config st) ''base_amount'' 100;
          quantity = base_amount / current_price;
          quantity =
            (if length (rsi_values st) > 0 then
               (let rsi = last (rsi_values st)
                in if pf_lt rsi 20 \<or> pf_gt rsi 80 then quantity * (3 / 2)
                   else if pf_gt rsi 40 \<and> pf_lt rsi 60 then quantity * (7 / 10)
                   else quantity)
             else quantity);
          quantity =
            (if trend_direction st = Some Up \<and> signal = BUY then quantity * (12 / 10)
             else if trend_direction st = Some Down \<and> signal = SELL then quantity * (12 / 10)
             else quantity);
          max_position = dict_get (config st) ''max_position'' 1000;
          quantity =
            (if signal = BUY then
               (if current_position st + quantity > max_position
                then max_position - current_position st else quantity)
             else
               (if current_position st - quantity < - max_position
                then current_position st + max_position else quantity))
      in max 0 quantity)"

definition momentum_calculate_position_size ::
  "momentum_strategy \<Rightarrow> trade_signal \<Rightarrow> market_data \<Rightarrow> real \<times> momentum_strategy" where
  "momentum_calculate_position_size st signal md =
     (let current_price = dict_get md ''price'' 1
      in if current_price = 0 then (0, st)
         else
           let quantity = momentum_sized_quantity st signal current_price
           in (quantity,
               if signal = BUY
               then st\<lparr>current_position := current_position st + quantity\<rparr>
               else if signal = SELL
               then st\<lparr>current_position := current_position st - quantity\<rparr>
               else st))"

definition momentum_validate_config :: "config \<Rightarrow> bool" where
  "momentum_validate_config cfg =
     (case (cfg ''rsi_period'', cfg ''macd_fast'', cfg ''macd_slow'', cfg ''macd_signal'',
            cfg ''rsi_oversold'', cfg ''rsi_overbought'', cfg ''base_amount'') of
        (Some rsi_period, Some macd_fast, Some macd_slow, Some macd_signal,
         Some rsi_oversold, Some rsi_overbought, Some base_amount) \<Rightarrow>
          if rsi_period \<le> 0 \<or> macd_fast \<le> 0 \<or> macd_slow \<le> 0 \<or> macd_signal \<le> 0 then False
          else if macd_fast \<ge> macd_slow then False
          else if rsi_oversold \<ge> rsi_overbought then False
          else if rsi_oversold < 0 \<or> rsi_overbought > 100 then False
          else if base_amount \<le> 0 then False
          else True
      | _ \<Rightarrow> False)"

section \<open>Sequences of signals through position sizing\<close>

text \<open>
  A sequence of signals, each with its market snapshot, passed one after the other
  through a strategy's \<open>calculate_position_size\<close>.
\<close>

fun grid_size_all :: "grid_strategy \<Rightarrow> (trade_signal \<times> market_data) list \<Rightarrow> grid_strategy" where
  "grid_size_all st [] = st"
| "grid_size_all st ((signal, md) # rest) =
     grid_size_all (snd (grid_calculate_position_size st signal md)) rest"

fun mr_size_all ::
  "mean_reversion_strategy \<Rightarrow> (trade_signal \<times> market_data) list \<Rightarrow> mean_reversion_strategy" where
  "mr_size_all st [] = st"
| "mr_size_all st ((signal, md) # rest) =
     mr_size_all (snd (mr_calculate_position_size st signal md)) rest"

fun momentum_size_all ::
  "momentum_strategy \<Rightarrow> (trade_signal \<times> market_data) list \<Rightarrow> momentum_strategy" where
  "momentum_size_all st [] = st"
| "momentum_size_all st ((signal, md) # rest) =
     momentum_size_all (snd (momentum_calculate_position_size st signal md)) rest"

definition max_position_of :: "config \<Rightarrow> real" where
  "max_position_of cfg = dict_get cfg ''max_position'' 1000"

definition within_max_position :: "config \<Rightarrow> real \<Rightarrow> bool" where
  "within_max_position cfg pos = (- max_position_of cfg \<le> pos \<and> pos \<le> max_position_of cfg)"

text \<open>A valid grid configuration with room for one unit of position.\<close>

definition grid_tight_config :: config where
  "grid_tight_config =
     [''base_price'' \<mapsto> 50000, ''grid_spacing'' \<mapsto> 1000, ''num_levels'' \<mapsto> 2,
      ''base_amount'' \<mapsto> 50000, ''max_position'' \<mapsto> 1]"


section \<open>Risk gate\<close>

text \<open>
  The fields of a stored risk profile that the checks read, the trade request, and the
  response. The columns of a profile are nullable, and an update can store \<open>None\<close>
  in any of them, so every field is optional. A risk factor is either a text or a
  dictionary of details.
\<close>

record risk_profile =
  max_position_size :: "real option"
  max_positions :: "int option"
  daily_loss_limit :: "real option"
  weekly_loss_limit :: "real option"
  monthly_loss_limit :: "real option"
  total_loss_limit :: "real option"
  max_volatility_threshold :: "real option"
  trading_hours_start :: "string option"
  trading_hours_end :: "string option"
  weekend_trading :: "bool option"

record risk_check_request =
  symbol :: string
  side :: string
  quantity :: real
  price_opt :: "real option"
  order_type :: string
  strategy_id :: "string option"

datatype risk_factor = Text string | Details "string \<rightharpoonup> string"

record risk_check_response =
  is_allowed :: bool
  risk_score :: real
  warnings :: "string list"
  errors :: "string list"
  suggested_quantity :: "real option"
  suggested_price :: "real option"
  risk_factors :: "string \<rightharpoonup> risk_factor"

text \<open>
  What \<open>_check_trading_hours\<close> reads off \<open>datetime.utcnow()\<close>: the weekday
  (Monday is 0), the hour and the minute.
\<close>

record utc_clock =
  weekday :: nat
  hour :: nat
  minute :: nat

text \<open>Decimal rendering of an integer, as an f-string prints it.\<close>

fun str_of_nat :: "nat \<Rightarrow> string" where
  "str_of_nat n =
     (if n < 10 then [''0123456789'' ! n]
      else str_of_nat (n div 10) @ [''0123456789'' ! (n mod 10)])"

definition str_of_int :: "int \<Rightarrow> string" where
  "str_of_int i = (if i < 0 then CHR ''-'' # str_of_nat (nat (- i)) else str_of_nat (nat i))"

text \<open>\<open>strftime("%H:%M")\<close>: hour and minute, two digits each.\<close>

definition two_digits :: "nat \<Rightarrow> string" where
  "two_digits n = [''0123456789'' ! (n div 10 mod 10), ''0123456789'' ! (n mod 10)]"

definition strftime_HM :: "utc_clock \<Rightarrow> string" where
  "strftime_HM now = two_digits (hour now) @ '':'' @ two_digits (minute now)"

text \<open>
  Fixed-point rendering with two decimals, \<open>f"{x:.2f}"\<close>: the nearest hundredth, a
  tie going to the even one.
\<close>

definition round_half_even :: "real \<Rightarrow> int" where
  "round_half_even y =
     (let f = \<lfloor>y\<rfloor>; d = y - of_int f
      in if d < 1 / 2 then f else if d > 1 / 2 then f + 1 else if even f then f else f + 1)"

definition format_2f :: "real \<Rightarrow> string" where
  "format_2f x =
     (let n = nat (round_half_even (\<bar>x\<bar> * 100))
      in (if x < 0 then [CHR ''-''] else []) @ str_of_nat (n div 100) @ [CHR ''.'']
           @ two_digits (n mod 100))"

text \<open>
  An exception inside the gate is carried as the text that \<open>str(e)\<close> gives. A
  comparison or a negation with \<open>None\<close> raises \<open>TypeError\<close>.
\<close>

datatype py_type = NoneType | IntT | FloatT | StrT

fun type_name :: "py_type \<Rightarrow> string" where
  "type_name NoneType = ''NoneType''"
| "type_name IntT = ''int''"
| "type_name FloatT = ''float''"
| "type_name StrT = ''str''"

definition quoted :: "string \<Rightarrow> string" where
  "quoted s = [CHR 0x27] @ s @ [CHR 0x27]"

definition not_supported :: "string \<Rightarrow> py_type \<Rightarrow> py_type \<Rightarrow> string" where
  "not_supported operator l r =
     quoted operator @ '' not supported between instances of '' @ quoted (type_name l)
       @ '' and '' @ quoted (type_name r)"

definition bad_unary_minus :: "py_type \<Rightarrow> string" where
  "bad_unary_minus t = ''bad operand type for unary -: '' @ quoted (type_name t)"

definition unsupported_operand :: "string \<Rightarrow> py_type \<Rightarrow> py_type \<Rightarrow> string" where
  "unsupported_operand operator l r =
     ''unsupported operand type(s) for '' @ operator @ '': '' @ quoted (type_name l)
       @ '' and '' @ quoted (type_name r)"

type_synonym 'a or_raised = "string + 'a"

definition then_check :: "'a or_raised \<Rightarrow> ('a \<Rightarrow> 'b or_raised) \<Rightarrow> 'b or_raised" where
  "then_check m f = (case m of Inl e \<Rightarrow> Inl e | Inr v \<Rightarrow> f v)"

text \<open>
  \<open>_check_trading_hours\<close>. Times of day are compared as strings, character by
  character; the chained comparison stops at the first part that fails. A weekend flag
  of \<open>None\<close> counts as off.
\<close>

definition check_trading_hours :: "utc_clock \<Rightarrow> risk_profile \<Rightarrow> bool or_raised" where
  "check_trading_hours now rp =
     (let current_time = strftime_HM now
      in if weekday now \<ge> 5 \<and> weekend_trading rp \<noteq> Some True then Inr False
         else
           case trading_hours_start rp of
             None \<Rightarrow> Inl (not_supported ''<='' NoneType StrT)
           | Some start \<Rightarrow>
               if start \<le> current_time then
                 (case trading_hours_end rp of
                    None \<Rightarrow> Inl (not_supported ''<='' StrT NoneType)
                  | Some end_time \<Rightarrow> Inr (current_time \<le> end_time))
               else Inr False)"

text \<open>The dictionary that each check returns.\<close>

record check_outcome =
  allowed :: bool
  messages :: "string list"
  details :: "string \<rightharpoonup> string"

text \<open>
  \<open>_check_position_limits\<close>, with the number of open positions fixed at 3 in the
  source. A missing or zero price counts as 50000.
\<close>

definition effective_price :: "risk_check_request \<Rightarrow> real" where
  "effective_price req =
     (case price_opt req of None \<Rightarrow> 50000 | Some p \<Rightarrow> if p = 0 then 50000 else p)"

definition check_position_limits ::
  "risk_profile \<Rightarrow> risk_check_request \<Rightarrow> check_outcome or_raised" where
  "check_position_limits rp req =
     (let current_positions = (3 :: int)
      in case max_positions rp of
           None \<Rightarrow> Inl (not_supported ''>='' IntT NoneType)
         | Some limit \<Rightarrow>
             let count_part =
                   (if current_positions \<ge> limit
                    then ([''Maximum positions limit reached ('' @ str_of_int current_positions
                             @ ''/'' @ str_of_int limit @ '')''],
                          [''max_positions'' \<mapsto>
                             str_of_int current_positions @ ''/'' @ str_of_int limit])
                    else ([], Map.empty))
             in case max_position_size rp of
                  None \<Rightarrow> Inl (not_supported ''>'' FloatT NoneType)
                | Some size_limit \<Rightarrow>
                    let both_parts =
                          (if quantity req * effective_price req > size_limit
                           then (fst count_part @ [''Position size exceeds limit''],
                                 (snd count_part)(''position_size'' \<mapsto> ''Exceeds limit''))
                           else count_part)
                    in Inr \<lparr>allowed = (length (fst both_parts) = 0),
                            messages = fst both_parts, details = snd both_parts\<rparr>)"

text \<open>
  The profit-and-loss figures that the loss check compares with the limits. The source
  does not read them from anywhere: they are literals in \<open>_check_loss_limits\<close>,
  marked there as mock data standing for the actual figures.
\<close>

record pnl_snapshot =
  daily_pnl :: real
  weekly_pnl :: real
  monthly_pnl :: real
  overall_pnl :: real

definition mock_pnl :: pnl_snapshot where
  "mock_pnl = \<lparr>daily_pnl = 2500, weekly_pnl = 8500, monthly_pnl = 18500, overall_pnl = 25000\<rparr>"

text \<open>One comparison of the loss check: a figure against the negated limit.\<close>

definition loss_step ::
  "real \<Rightarrow> real option \<Rightarrow> string \<Rightarrow> string \<Rightarrow> string list \<times> (string \<rightharpoonup> string)
     \<Rightarrow> (string list \<times> (string \<rightharpoonup> string)) or_raised" where
  "loss_step pnl limit message key acc =
     (case limit of
        None \<Rightarrow> Inl (bad_unary_minus NoneType)
      | Some l \<Rightarrow>
          if pnl < - l
          then Inr (fst acc @ [message], (snd acc)(key \<mapsto> ''$'' @ format_2f pnl))
          else Inr acc)"

text \<open>
  The body of \<open>_check_loss_limits\<close> below the four literals, as a function of the
  figures; \<open>_check_loss_limits\<close> itself is that body at the literals.
\<close>

definition check_loss_limits_on :: "pnl_snapshot \<Rightarrow> risk_profile \<Rightarrow> check_outcome or_raised" where
  "check_loss_limits_on pnl rp =
     then_check (loss_step (daily_pnl pnl) (daily_loss_limit rp)
                   ''Daily loss limit exceeded'' ''daily_loss'' ([], Map.empty)) (\<lambda>acc1.
     then_check (loss_step (weekly_pnl pnl) (weekly_loss_limit rp)
                   ''Weekly loss limit exceeded'' ''weekly_loss'' acc1) (\<lambda>acc2.
     then_check (loss_step (monthly_pnl pnl) (monthly_loss_limit rp)
                   ''Monthly loss limit exceeded'' ''monthly_loss'' acc2) (\<lambda>acc3.
     then_check (loss_step (overall_pnl pnl) (total_loss_limit rp)
                   ''Total loss limit exceeded'' ''total_loss'' acc3) (\<lambda>acc4.
     Inr \<lparr>allowed = (length (fst acc4) = 0), messages = fst acc4, details = snd acc4\<rparr>))))"

definition check_loss_limits :: "risk_profile \<Rightarrow> check_outcome or_raised" where
  "check_loss_limits rp = check_loss_limits_on mock_pnl rp"

text \<open>\<open>_check_volatility\<close>: the volatility is the literal 25; always allowed.\<close>

definition check_volatility :: "risk_profile \<Rightarrow> risk_check_request \<Rightarrow> check_outcome or_raised" where
  "check_volatility rp req =
     (let current_volatility = (25 :: real)
      in case max_volatility_threshold rp of
           None \<Rightarrow> Inl (not_supported ''>'' FloatT NoneType)
         | Some threshold \<Rightarrow>
             if current_volatility > threshold
             then Inr \<lparr>allowed = True, messages = [''High volatility detected''],
                       details = [''volatility'' \<mapsto> ''25.0%'']\<rparr>
             else Inr \<lparr>allowed = True, messages = [], details = Map.empty\<rparr>)"

definition factor_score :: "(string \<rightharpoonup> risk_factor) \<Rightarrow> real" where
  "factor_score factors =
     50 + (if ''trading_hours'' \<in> dom factors then 20 else 0)
        + (if ''position_limits'' \<in> dom factors then 15 else 0)
        + (if ''loss_limits'' \<in> dom factors then 25 else 0)
        + (if ''volatility'' \<in> dom factors then 10 else 0)"

definition calculate_risk_score ::
  "risk_profile \<Rightarrow> risk_check_request \<Rightarrow> (string \<rightharpoonup> risk_factor) \<Rightarrow> real or_raised" where
  "calculate_risk_score rp req factors =
     then_check
       (case price_opt req of
          None \<Rightarrow> Inr (factor_score factors)
        | Some p \<Rightarrow>
            if p = 0 then Inr (factor_score factors)
            else
              case max_position_size rp of
                None \<Rightarrow> Inl (unsupported_operand ''*'' NoneType FloatT)
              | Some size_limit \<Rightarrow>
                  if quantity req * p > size_limit * (8 / 10)
                  then Inr (factor_score factors + 10) else Inr (factor_score factors))
       (\<lambda>base_score. Inr (min 100 (max 0 base_score)))"

definition suggest_quantity :: "risk_profile \<Rightarrow> risk_check_request \<Rightarrow> real option or_raised" where
  "suggest_quantity rp req =
     (case price_opt req of
        None \<Rightarrow> Inr None
      | Some p \<Rightarrow>
          if p = 0 then Inr None
          else
            case max_position_size rp of
              None \<Rightarrow> Inl (unsupported_operand ''*'' NoneType FloatT)
            | Some size_limit \<Rightarrow> Inr (Some (min (size_limit * (8 / 10) / p) (quantity req))))"

definition suggest_price :: "risk_profile \<Rightarrow> risk_check_request \<Rightarrow> real option" where
  "suggest_price rp req =
     (if order_type req = ''market'' then None
      else if side req = ''buy'' then
        (case price_opt req of
           None \<Rightarrow> None | Some p \<Rightarrow> if p = 0 then None else Some (p * (98 / 100)))
      else
        (case price_opt req of
           None \<Rightarrow> None | Some p \<Rightarrow> if p = 0 then None else Some (p * (102 / 100))))"

text \<open>
  The errors and risk factors that \<open>check_trade_risk\<close> has gathered after each check,
  and the response it builds from them.
\<close>

type_synonym findings = "string list \<times> (string \<rightharpoonup> risk_factor)"

definition hours_findings :: "bool \<Rightarrow> findings" where
  "hours_findings in_hours =
     (if \<not> in_hours
      then ([''Trading outside allowed hours''],
            [''trading_hours'' \<mapsto> Text ''Outside allowed hours''])
      else ([], Map.empty))"

definition add_findings :: "string \<Rightarrow> check_outcome \<Rightarrow> findings \<Rightarrow> findings" where
  "add_findings key outcome found =
     (if \<not> allowed outcome
      then (fst found @ messages outcome, (snd found)(key \<mapsto> Details (details outcome)))
      else found)"

definition build_response ::
  "risk_profile \<Rightarrow> risk_check_request \<Rightarrow> findings \<Rightarrow> check_outcome
     \<Rightarrow> risk_check_response or_raised" where
  "build_response rp req found volatility_check =
     (let warns = (if \<not> allowed volatility_check then messages volatility_check else []);
          factors = (if \<not> allowed volatility_check
                     then (snd found)(''volatility'' \<mapsto> Details (details volatility_check))
                     else snd found)
      in then_check (calculate_risk_score rp req factors) (\<lambda>score.
         then_check (if length (fst found) = 0 then Inr None else suggest_quantity rp req)
           (\<lambda>suggestion.
         Inr \<lparr>is_allowed = (length (fst found) = 0),
              risk_score = score,
              warnings = warns,
              errors = fst found,
              suggested_quantity = suggestion,
              suggested_price =
                (if length (fst found) = 0 then None else suggest_price rp req),
              risk_factors = factors\<rparr>)))"

text \<open>
  The body of \<open>check_trade_risk\<close> once a profile has been found: the four checks in
  order, then the score, the verdict and the suggestions. An exception in any step
  ends the body.
\<close>

definition evaluate_trade_on ::
  "pnl_snapshot \<Rightarrow> risk_profile \<Rightarrow> utc_clock \<Rightarrow> risk_check_request
     \<Rightarrow> risk_check_response or_raised" where
  "evaluate_trade_on pnl rp now req =
     then_check (check_trading_hours now rp) (\<lambda>in_hours.
     then_check (check_position_limits rp req) (\<lambda>position_check.
     then_check (check_loss_limits_on pnl rp) (\<lambda>loss_check.
     then_check (check_volatility rp req) (\<lambda>volatility_check.
     build_response rp req
       (add_findings ''loss_limits'' loss_check
          (add_findings ''position_limits'' position_check (hours_findings in_hours)))
       volatility_check))))"

text \<open>The response of the exception handler of \<open>check_trade_risk\<close>.\<close>

definition risk_check_error :: "string \<Rightarrow> risk_check_response" where
  "risk_check_error e =
     \<lparr>is_allowed = False, risk_score = 100, warnings = [],
      errors = [''Risk check error: '' @ e],
      suggested_quantity = None, suggested_price = None, risk_factors = Map.empty\<rparr>"

text \<open>
  \<open>check_trade_risk\<close>, as a function of the profit-and-loss figures. The profile
  lookup either raises (\<open>Inl\<close>, with the text of the exception), finds no active
  profile, or finds one. An exception, from the lookup or from a check, is answered by
  the handler's response.
\<close>

definition check_trade_risk_on ::
  "pnl_snapshot \<Rightarrow> string + risk_profile option \<Rightarrow> utc_clock \<Rightarrow> risk_check_request
     \<Rightarrow> risk_check_response" where
  "check_trade_risk_on pnl lookup now req =
     (case lookup of
        Inl e \<Rightarrow> risk_check_error e
      | Inr None \<Rightarrow>
          \<lparr>is_allowed = False, risk_score = 100, warnings = [],
           errors = [''No risk profile found''],
           suggested_quantity = None, suggested_price = None, risk_factors = Map.empty\<rparr>
      | Inr (Some rp) \<Rightarrow>
          (case evaluate_trade_on pnl rp now req of
             Inl e \<Rightarrow> risk_check_error e
           | Inr response \<Rightarrow> response))"

text \<open>\<open>check_trade_risk\<close> as the source has it, on the literal figures.\<close>

definition check_trade_risk ::
  "string + risk_profile option \<Rightarrow> utc_clock \<Rightarrow> risk_check_request \<Rightarrow> risk_check_response" where
  "check_trade_risk lookup now req = check_trade_risk_on mock_pnl lookup now req"







text \<open>Every limit field that a check compares is set; both times of day are set.\<close>

definition limits_set :: "risk_profile \<Rightarrow> bool" where
  "limits_set rp =
     (max_position_size rp \<noteq> None \<and> max_positions rp \<noteq> None \<and>
      daily_loss_limit rp \<noteq> None \<and> weekly_loss_limit rp \<noteq> None \<and>
      monthly_loss_limit rp \<noteq> None \<and> total_loss_limit rp \<noteq> None \<and>
      max_volatility_threshold rp \<noteq> None)"

definition hours_set :: "risk_profile \<Rightarrow> bool" where
  "hours_set rp = (trading_hours_start rp \<noteq> None \<and> trading_hours_end rp \<noteq> None)"

text \<open>The column defaults of a risk profile, and a limit order inside its limits.\<close>

definition default_risk_profile :: risk_profile where
  "default_risk_profile =
     \<lparr>max_position_size = Some 10000, max_positions = Some 10,
      daily_loss_limit = Some 1000, weekly_loss_limit = Some 5000,
      monthly_loss_limit = Some 20000, total_loss_limit = Some 50000,
      max_volatility_threshold = Some 50,
      trading_hours_start = Some ''09:00'', trading_hours_end = Some ''17:00'',
      weekend_trading = Some False\<rparr>"

definition small_limit_order :: risk_check_request where
  "small_limit_order =
     \<lparr>symbol = ''BTCUSDT'', side = ''buy'', quantity = 1 / 100, price_opt = Some 50000,
      order_type = ''limit'', strategy_id = None\<rparr>"



definition losing_day :: pnl_snapshot where
  "losing_day = \<lparr>daily_pnl = - 1500, weekly_pnl = 0, monthly_pnl = 0, overall_pnl = 0\<rparr>"

section \<open>Configuration updates\<close>

text \<open>
  A strategy's \<open>config\<close> attribute refers to a dictionary object, which the caller
  that built the strategy may still hold. The store maps references to dictionaries;
  references below \<open>next_ref\<close> are allocated.
\<close>

record dict_store =
  dicts :: "nat \<Rightarrow> config"
  next_ref :: nat

text \<open>\<open>d.copy()\<close> allocates a new dictionary; \<open>d.update(new)\<close> changes \<open>d\<close> in place.\<close>

definition dict_copy :: "dict_store \<Rightarrow> nat \<Rightarrow> nat \<times> dict_store" where
  "dict_copy h r =
     (next_ref h, h\<lparr>dicts := (dicts h)(next_ref h := dicts h r), next_ref := Suc (next_ref h)\<rparr>)"

definition dict_update :: "dict_store \<Rightarrow> nat \<Rightarrow> config \<Rightarrow> dict_store" where
  "dict_update h r new = h\<lparr>dicts := (dicts h)(r := dicts h r ++ new)\<rparr>"

datatype strategy_type = GRID | MEAN_REVERSION | MOMENTUM

definition validate_config :: "strategy_type \<Rightarrow> config \<Rightarrow> bool" where
  "validate_config kind cfg =
     (case kind of
        GRID \<Rightarrow> grid_validate_config cfg
      | MEAN_REVERSION \<Rightarrow> mr_validate_config cfg
      | MOMENTUM \<Rightarrow> momentum_validate_config cfg)"

text \<open>
  \<open>BaseStrategy.update_config\<close> on a strategy of the given type whose \<open>config\<close>
  attribute is the reference \<open>self_config\<close>: the result, the store afterwards, and
  the reference the attribute holds afterwards. The merge is done in place on the
  strategy's dictionary before validation; \<open>validate_config\<close> reads the merged
  dictionary and handles its own exceptions.
\<close>

definition update_config ::
  "strategy_type \<Rightarrow> dict_store \<Rightarrow> nat \<Rightarrow> config \<Rightarrow> bool \<times> dict_store \<times> nat" where
  "update_config kind h self_config new_config =
     (let (old_config, h1) = dict_copy h self_config;
          h2 = dict_update h1 self_config new_config
      in if validate_config kind (dicts h2 self_config) then (True, h2, self_config)
         else (False, h2, old_config))"

text \<open>A store holding the grid scenario's configuration at reference 0.\<close>

definition scenario_store :: dict_store where
  "scenario_store = \<lparr>dicts = (\<lambda>r. if r = 0 then grid_scenario_config else Map.empty), next_ref = 1\<rparr>"

section \<open>Binance adapter\<close>

























subsection \<open>Operations that raise again\<close>







subsection \<open>Operations that fail softly\<close>








datatype order_type = Market | Limit | StopLoss | TakeProfit





















section \<open>Properties of the grid strategy\<close>

lemma grid_initialize_50000_1000_3:
  assumes "config st ''base_price'' = Some 50000"
    and "config st ''grid_spacing'' = Some 1000"
    and "config st ''num_levels'' = Some 3"
  shows "fst (grid_initialize st)"
    and "map (\<lambda>l. (price l, type l)) (grid_levels (snd (grid_initialize st))) =
           [(47000, Buy), (48000, Buy), (49000, Buy), (50000, Sell),
            (51000, Sell), (52000, Sell), (53000, Sell)]"
  using assms
  by (simp_all add: grid_initialize_def dict_get_def is_integral_def make_level_def
        Let_def upto_rec1)

text \<open>
  C3. With \<open>base_price = 50000\<close>, \<open>grid_spacing = 1000\<close> and \<open>num_levels = 3\<close>,
  \<open>initialize\<close> succeeds and builds a ladder of exactly seven levels, at the prices
  47000, 48000, ..., 53000, in ascending order of price; every level below 50000 is a
  buy level and every level above 50000 is a sell level.
\<close>

theorem grid_initialize_ladder:
  assumes "config st ''base_price'' = Some 50000"
    and "config st ''grid_spacing'' = Some 1000"
    and "config st ''num_levels'' = Some 3"
  shows "fst (grid_initialize st) \<and>
         length (grid_levels (snd (grid_initialize st))) = 7 \<and>
         map price (grid_levels (snd (grid_initialize st))) =
           [47000, 48000, 49000, 50000, 51000, 52000, 53000] \<and>
         sorted (map price (grid_levels (snd (grid_initialize st)))) \<and>
         (\<forall>l \<in> set (grid_levels (snd (grid_initialize st))).
            (price l < 50000 \<longrightarrow> type l = Buy) \<and> (price l > 50000 \<longrightarrow> type l = Sell))"
proof -
  let ?ls = "grid_levels (snd (grid_initialize st))"
  note pt = grid_initialize_50000_1000_3(2)[OF assms]
  have prices: "map price ?ls = [47000, 48000, 49000, 50000, 51000, 52000, 53000]"
  proof -
    have "map price ?ls = map fst (map (\<lambda>l. (price l, type l)) ?ls)"
      by (simp add: comp_def)
    then show ?thesis by (simp add: pt)
  qed
  have len: "length ?ls = 7"
  proof -
    have "length ?ls = length (map price ?ls)" by simp
    then show ?thesis by (simp only: prices) simp
  qed
  have sides: "(price l < 50000 \<longrightarrow> type l = Buy) \<and> (price l > 50000 \<longrightarrow> type l = Sell)"
    if "l \<in> set ?ls" for l
  proof -
    from that have "(price l, type l) \<in> set (map (\<lambda>l. (price l, type l)) ?ls)"
      by force
    then show ?thesis by (simp only: pt) auto
  qed
  have "sorted (map price ?ls)"
    by (simp only: prices) simp
  with grid_initialize_50000_1000_3(1)[OF assms] len prices sides show ?thesis
    by blast
qed

theorem grid_initialize_ladder_witness:
  "fst (grid_initialize (grid_init
      [''base_price'' \<mapsto> 50000, ''grid_spacing'' \<mapsto> 1000, ''num_levels'' \<mapsto> 3])) \<and>
   map price (grid_levels (snd (grid_initialize (grid_init
      [''base_price'' \<mapsto> 50000, ''grid_spacing'' \<mapsto> 1000, ''num_levels'' \<mapsto> 3])))) =
     [47000, 48000, 49000, 50000, 51000, 52000, 53000]"
  using grid_initialize_ladder
    [of "grid_init [''base_price'' \<mapsto> 50000, ''grid_spacing'' \<mapsto> 1000, ''num_levels'' \<mapsto> 3]"]
  by (simp add: grid_init_def)

lemma grid_scenario_start:
  "grid_start (grid_init grid_scenario_config) =
     (True,
      (grid_init grid_scenario_config)
        \<lparr>status := ACTIVE, is_running := True,
         grid_levels := map (make_level 50000 1000) [- 2, - 1, 0, 1, 2],
         base_price := 50000, grid_spacing := 1000\<rparr>)"
  by (simp add: grid_scenario_config_def grid_start_def grid_validate_config_def grid_init_def
        grid_initialize_def dict_get_def is_integral_def make_level_def Let_def upto_rec1)

text \<open>
  C2. The grid strategy started on \<open>base_price = 50000\<close>, \<open>grid_spacing = 1000\<close>,
  \<open>num_levels = 2\<close>, \<open>base_amount = 100\<close>, \<open>trigger_threshold = 50\<close> answers a first
  tick at price 49000 with BUY, sized and logged at \<open>100 / 49000\<close>, and marks the
  49000 level filled; a second tick at 49000 returns no signal, so no second BUY.
\<close>

theorem grid_scenario_two_ticks:
  assumes "md1 ''price'' = Some 49000" and "md2 ''price'' = Some 49000"
  shows "case grid_start (grid_init grid_scenario_config) of (started, st0) \<Rightarrow>
           case grid_execute st0 md1 of (signal1, st1) \<Rightarrow>
             case grid_execute st1 md2 of (signal2, st2) \<Rightarrow>
               started \<and> signal1 = Some BUY \<and>
               trade_log st1 = [(BUY, 100 / 49000, 49000)] \<and>
               current_position st1 = 100 / 49000 \<and>
               map (\<lambda>l. (price l, filled l)) (grid_levels st1) =
                 [(48000, False), (49000, True), (50000, False), (51000, False), (52000, False)] \<and>
               signal2 = None \<and> signal2 \<noteq> Some BUY \<and> st2 = st1"
  using assms
  by (simp add: grid_scenario_start)
     (simp add: grid_scenario_config_def grid_init_def dict_get_def make_level_def Let_def
        grid_execute_def grid_fill_def grid_calculate_position_size_def log_trade_def)

theorem grid_scenario_two_ticks_witness:
  "case grid_start (grid_init grid_scenario_config) of (started, st0) \<Rightarrow>
     case grid_execute st0 [''price'' \<mapsto> 49000, ''volume'' \<mapsto> 500] of (signal1, st1) \<Rightarrow>
       case grid_execute st1 [''price'' \<mapsto> 49000, ''volume'' \<mapsto> 700] of (signal2, st2) \<Rightarrow>
         signal1 = Some BUY \<and> trade_log st1 = [(BUY, 100 / 49000, 49000)] \<and> signal2 = None"
  using grid_scenario_two_ticks
    [of "[''price'' \<mapsto> 49000, ''volume'' \<mapsto> 500]" "[''price'' \<mapsto> 49000, ''volume'' \<mapsto> 700]"]
  by (simp split: prod.splits)

section \<open>Properties of the mean-reversion strategy\<close>

lemma mr_calculate_position_size_keeps:
  assumes "mr_calculate_position_size st sg md = (q, st')"
  shows "config st' = config st" and "last_signal st' = last_signal st"
  using assms
  by (auto simp: mr_calculate_position_size_def Let_def split: if_splits)

lemma mr_decide_keeps:
  assumes "mr_decide st dev = (sg, st')"
  shows "config st' = config st" and "current_position st' = current_position st"
  using assms
  by (auto simp: mr_decide_def Let_def split: if_splits)

lemma mr_decide_BUY:
  assumes "mr_decide st dev = (Some BUY, st')"
  shows "last_signal st' = Some BUY"
  using assms
  by (auto simp: mr_decide_def Let_def split: if_splits)

lemma mr_decide_latched:
  assumes "mr_latched st"
    and "mr_buy_threshold st < mr_sell_threshold st"
    and "pf_le dev (mr_buy_threshold st)"
    and "mr_decide st dev = (sg, st')"
  shows "sg \<noteq> Some BUY" and "sg \<noteq> Some SELL" and "mr_latched st'"
  using assms
  by (auto simp: mr_decide_def mr_latched_def Let_def mr_buy_threshold_def mr_sell_threshold_def
        pf_le_def pf_ge_def split: if_splits pyfloat.splits)

lemma mr_execute_Skipped:
  assumes "mr_deviation st md = Skipped"
  shows "fst (mr_execute st md) = None"
    and "config (snd (mr_execute st md)) = config st"
    and "last_signal (snd (mr_execute st md)) = last_signal st"
    and "current_position (snd (mr_execute st md)) = current_position st"
  using assms by (simp_all add: mr_execute_def Let_def)

lemma mr_execute_Computed:
  assumes "mr_deviation st md = Computed dev"
  shows "mr_execute st md =
    (let current_price = dict_get md ''price'' 0;
         st1 = st\<lparr>price_history := deque_append 200 (price_history st) current_price\<rparr>
     in case mr_decide st1 dev of
                       (Some BUY, st2) \<Rightarrow>
                         (let (quantity, st3) = mr_calculate_position_size st2 BUY md
                          in (Some BUY, log_trade BUY quantity current_price st3))
                     | (Some SELL, st2) \<Rightarrow>
                         (let (quantity, st3) = mr_calculate_position_size st2 SELL md
                          in (Some SELL, log_trade SELL quantity current_price st3))
                     | (signal, st2) \<Rightarrow> (signal, st2))"
proof -
  from assms have "is_running st" and "\<not> dict_get md ''price'' 0 \<le> 0"
    by (auto simp: mr_deviation_def Let_def split: if_splits)
  with assms show ?thesis
    by (simp add: mr_execute_def Let_def)
qed

lemma mr_execute_BUY_latched:
  assumes "fst (mr_execute st md) = Some BUY"
  shows "mr_latched (snd (mr_execute st md))"
proof (cases "mr_deviation st md")
  case Skipped
  with assms show ?thesis by (simp add: mr_execute_Skipped)
next
  case (Computed dev)
  let ?st1 = "st\<lparr>price_history := deque_append 200 (price_history st) (dict_get md ''price'' 0)\<rparr>"
  obtain sg st2 where d: "mr_decide ?st1 dev = (sg, st2)" by (cases "mr_decide ?st1 dev")
  obtain q st3 where c: "mr_calculate_position_size st2 BUY md = (q, st3)"
    by (cases "mr_calculate_position_size st2 BUY md")
  obtain q' st3' where c': "mr_calculate_position_size st2 SELL md = (q', st3')"
    by (cases "mr_calculate_position_size st2 SELL md")
  from assms have sg: "sg = Some BUY"
    by (simp add: mr_execute_Computed[OF Computed] Let_def d c c'
          split: option.splits trade_signal.splits)
  have "last_signal st3 = Some BUY"
    using mr_decide_BUY d sg mr_calculate_position_size_keeps(2)[OF c] by simp
  then show ?thesis
    by (simp add: mr_execute_Computed[OF Computed] Let_def d c sg mr_latched_def log_trade_def)
qed

lemma mr_execute_config: "config (snd (mr_execute st md)) = config st"
proof (cases "mr_deviation st md")
  case Skipped
  then show ?thesis by (simp add: mr_execute_Skipped)
next
  case (Computed dev)
  let ?st1 = "st\<lparr>price_history := deque_append 200 (price_history st) (dict_get md ''price'' 0)\<rparr>"
  obtain sg st2 where d: "mr_decide ?st1 dev = (sg, st2)" by (cases "mr_decide ?st1 dev")
  obtain q st3 where c: "mr_calculate_position_size st2 BUY md = (q, st3)"
    by (cases "mr_calculate_position_size st2 BUY md")
  obtain q' st3' where c': "mr_calculate_position_size st2 SELL md = (q', st3')"
    by (cases "mr_calculate_position_size st2 SELL md")
  have "config st2 = config st" using mr_decide_keeps(1)[OF d] by simp
  moreover have "config st3 = config st2" "config st3' = config st2"
    using mr_calculate_position_size_keeps(1)[OF c] mr_calculate_position_size_keeps(1)[OF c'] by simp_all
  ultimately show ?thesis
    by (simp add: mr_execute_Computed[OF Computed] Let_def d c c' log_trade_def
          split: option.splits trade_signal.splits)
qed

lemma mr_execute_latched_step:
  assumes "mr_latched st"
    and "mr_buy_threshold st < mr_sell_threshold st"
    and "\<not> above_threshold (mr_buy_threshold st) (mr_deviation st md)"
  shows "fst (mr_execute st md) \<noteq> Some BUY \<and> mr_latched (snd (mr_execute st md))"
proof (cases "mr_deviation st md")
  case Skipped
  with assms(1) show ?thesis by (simp add: mr_execute_Skipped mr_latched_def)
next
  case (Computed dev)
  let ?st1 = "st\<lparr>price_history := deque_append 200 (price_history st) (dict_get md ''price'' 0)\<rparr>"
  obtain sg st2 where d: "mr_decide ?st1 dev = (sg, st2)" by (cases "mr_decide ?st1 dev")
  have l1: "mr_latched ?st1" using assms(1) by (simp add: mr_latched_def)
  have t1: "mr_buy_threshold ?st1 < mr_sell_threshold ?st1"
    using assms(2) by (simp add: mr_buy_threshold_def mr_sell_threshold_def)
  have le: "pf_le dev (mr_buy_threshold ?st1)"
    using assms(3) Computed by (simp add: above_threshold_def mr_buy_threshold_def)
  note r = mr_decide_latched[OF l1 t1 le d]
  from r(1) r(2) have "mr_execute st md = (sg, st2)"
    by (simp add: mr_execute_Computed[OF Computed] Let_def d
          split: option.splits trade_signal.splits)
  with r show ?thesis by simp
qed

lemma mr_execute_BUY_not_above:
  assumes "fst (mr_execute st md) = Some BUY"
  shows "\<not> above_threshold (mr_buy_threshold st) (mr_deviation st md)"
proof (cases "mr_deviation st md")
  case Skipped
  then show ?thesis by (simp add: above_threshold_def)
next
  case (Computed dev)
  let ?st1 = "st\<lparr>price_history := deque_append 200 (price_history st) (dict_get md ''price'' 0)\<rparr>"
  obtain sg st2 where d: "mr_decide ?st1 dev = (sg, st2)" by (cases "mr_decide ?st1 dev")
  obtain q st3 where c: "mr_calculate_position_size st2 BUY md = (q, st3)"
    by (cases "mr_calculate_position_size st2 BUY md")
  obtain q' st3' where c': "mr_calculate_position_size st2 SELL md = (q', st3')"
    by (cases "mr_calculate_position_size st2 SELL md")
  from assms have sg: "sg = Some BUY"
    by (simp add: mr_execute_Computed[OF Computed] Let_def d c c'
          split: option.splits trade_signal.splits)
  from d sg have "pf_le dev (mr_buy_threshold st)"
    by (auto simp: mr_decide_def Let_def mr_buy_threshold_def split: if_splits)
  with Computed show ?thesis by (simp add: above_threshold_def)
qed

lemma mr_thresholds_execute:
  "mr_buy_threshold (snd (mr_execute st md)) = mr_buy_threshold st"
  "mr_sell_threshold (snd (mr_execute st md)) = mr_sell_threshold st"
  by (simp_all add: mr_buy_threshold_def mr_sell_threshold_def mr_execute_config)

lemma mr_run_latched:
  assumes "mr_latched st"
    and "mr_buy_threshold st < mr_sell_threshold st"
    and "k < length mds"
    and "\<forall>j<k. \<not> above_threshold (mr_buy_threshold st) (fst (mr_run st mds ! j))"
  shows "snd (mr_run st mds ! k) \<noteq> Some BUY"
  using assms
proof (induction mds arbitrary: st k)
  case Nil
  then show ?case by simp
next
  case (Cons md mds)
  show ?case
  proof (cases k)
    case 0
    show ?thesis
    proof (cases "above_threshold (mr_buy_threshold st) (mr_deviation st md)")
      case True
      with mr_execute_BUY_not_above[of st md] 0 show ?thesis by auto
    next
      case False
      with mr_execute_latched_step[OF Cons.prems(1,2)] 0 show ?thesis by simp
    qed
  next
    case (Suc k')
    let ?st' = "snd (mr_execute st md)"
    from Cons.prems(4) Suc
    have na: "\<not> above_threshold (mr_buy_threshold st) (mr_deviation st md)"
      by (auto dest: spec[where x = 0])
    have l': "mr_latched ?st'"
      using mr_execute_latched_step[OF Cons.prems(1,2) na] by simp
    have t': "mr_buy_threshold ?st' < mr_sell_threshold ?st'"
      using Cons.prems(2) by (simp add: mr_thresholds_execute)
    have k': "k' < length mds" using Cons.prems(3) Suc by simp
    have q': "\<forall>j<k'. \<not> above_threshold (mr_buy_threshold ?st') (fst (mr_run ?st' mds ! j))"
    proof (intro allI impI)
      fix j assume "j < k'"
      then have "Suc j < k" using Suc by simp
      with Cons.prems(4) have "\<not> above_threshold (mr_buy_threshold st) (fst (mr_run st (md # mds) ! Suc j))"
        by blast
      then show "\<not> above_threshold (mr_buy_threshold ?st') (fst (mr_run ?st' mds ! j))"
        by (simp add: mr_thresholds_execute)
    qed
    from Cons.IH[OF l' t' k' q'] Suc show ?thesis by simp
  qed
qed

text \<open>
  C4. Hysteresis of the mean-reversion strategy, for a configuration whose buy
  threshold lies below its sell threshold (as every validated configuration has):
  once \<open>execute\<close> has emitted BUY, a later call emits BUY again only after some
  tick in between whose computed deviation from the long moving average was not at or
  below the buy threshold. So no BUY is emitted while every intervening tick still has
  its deviation at or below the threshold (ticks on which \<open>execute\<close> computes no
  deviation change nothing).
\<close>

theorem mr_hysteresis:
  assumes "mr_buy_threshold st < mr_sell_threshold st"
    and "fst (mr_execute st md) = Some BUY"
  shows "\<forall>k < length mds.
           snd (mr_run (snd (mr_execute st md)) mds ! k) = Some BUY \<longrightarrow>
           (\<exists>j<k. above_threshold (mr_buy_threshold st)
                     (fst (mr_run (snd (mr_execute st md)) mds ! j)))"
proof (intro allI impI)
  fix k
  let ?st' = "snd (mr_execute st md)"
  assume k: "k < length mds" and b: "snd (mr_run ?st' mds ! k) = Some BUY"
  have l': "mr_latched ?st'" using assms(2) by (rule mr_execute_BUY_latched)
  have t': "mr_buy_threshold ?st' < mr_sell_threshold ?st'"
    using assms(1) by (simp add: mr_thresholds_execute)
  show "\<exists>j<k. above_threshold (mr_buy_threshold st) (fst (mr_run ?st' mds ! j))"
  proof (rule ccontr)
    assume "\<not> ?thesis"
    then have "\<forall>j<k. \<not> above_threshold (mr_buy_threshold ?st') (fst (mr_run ?st' mds ! j))"
      by (simp add: mr_thresholds_execute)
    from mr_run_latched[OF l' t' k this] b show False by simp
  qed
qed

theorem mr_hysteresis_witness:
  "mr_buy_threshold mr_example_state < mr_sell_threshold mr_example_state \<and>
   fst (mr_execute mr_example_state [''price'' \<mapsto> 90]) = Some BUY \<and>
   \<not> above_threshold (mr_buy_threshold mr_example_state)
       (fst (mr_run (snd (mr_execute mr_example_state [''price'' \<mapsto> 90]))
               [[''price'' \<mapsto> 80], [''price'' \<mapsto> 70]] ! 0)) \<and>
   snd (mr_run (snd (mr_execute mr_example_state [''price'' \<mapsto> 90]))
          [[''price'' \<mapsto> 80], [''price'' \<mapsto> 70]] ! 0) \<noteq> Some BUY \<and>
   snd (mr_run (snd (mr_execute mr_example_state [''price'' \<mapsto> 90]))
          [[''price'' \<mapsto> 80], [''price'' \<mapsto> 70]] ! 1) \<noteq> Some BUY"
proof -
  let ?run = "mr_run (snd (mr_execute mr_example_state [''price'' \<mapsto> 90]))
                [[''price'' \<mapsto> 80], [''price'' \<mapsto> 70]]"
  have h1: "mr_buy_threshold mr_example_state < mr_sell_threshold mr_example_state"
    by code_simp
  have h2: "fst (mr_execute mr_example_state [''price'' \<mapsto> 90]) = Some BUY"
    by code_simp
  have h3: "\<not> above_threshold (mr_buy_threshold mr_example_state) (fst (?run ! 0))"
    by code_simp
  note hyst = mr_hysteresis [OF h1 h2, of "[[''price'' \<mapsto> 80], [''price'' \<mapsto> 70]]"]
  have len: "0 < length [[''price'' \<mapsto> 80], [''price'' \<mapsto> 70 :: real]]"
    "1 < length [[''price'' \<mapsto> 80], [''price'' \<mapsto> 70 :: real]]"
    by simp_all
  have k0: "snd (?run ! 0) \<noteq> Some BUY"
  proof
    assume a: "snd (?run ! 0) = Some BUY"
    from hyst[rule_format, OF len(1) a] show False by blast
  qed
  have k1: "snd (?run ! 1) \<noteq> Some BUY"
  proof
    assume a: "snd (?run ! 1) = Some BUY"
    from hyst[rule_format, OF len(2) a]
    obtain j where "j < 1"
      and "above_threshold (mr_buy_threshold mr_example_state) (fst (?run ! j))"
      by blast
    with h3 show False by (simp only: less_one)
  qed
  from h1 h2 h3 k0 k1 show ?thesis by blast
qed

text \<open>
  The example run in full: after the BUY at 90, the ticks at 80 and 70 have
  deviations \<open>- 1/17\<close> and \<open>- 1/15\<close>, both below the threshold \<open>- 2/100\<close>, and neither
  returns a signal.
\<close>

lemma mr_example_run:
  "mr_run (snd (mr_execute mr_example_state [''price'' \<mapsto> 90]))
     [[''price'' \<mapsto> 80], [''price'' \<mapsto> 70]] =
   [(Computed (Num (- (1 / 17))), None), (Computed (Num (- (1 / 15))), None)]"
  by code_simp

section \<open>Position sizing\<close>

lemma clamp_quantity_bounds:
  fixes pos q m :: real
  shows "0 \<le> max 0 (if pos + q > m then m - pos else q)"
    and "pos \<le> m \<Longrightarrow> pos + max 0 (if pos + q > m then m - pos else q) \<le> m"
    and "0 \<le> max 0 (if pos - q < - m then pos + m else q)"
    and "- m \<le> pos \<Longrightarrow> - m \<le> pos - max 0 (if pos - q < - m then pos + m else q)"
  by (auto simp: max_def)

lemma mr_sized_quantity_bounds:
  "0 \<le> mr_sized_quantity st sg p"
  "sg = BUY \<Longrightarrow> current_position st \<le> max_position_of (config st) \<Longrightarrow>
     current_position st + mr_sized_quantity st sg p \<le> max_position_of (config st)"
  "sg \<noteq> BUY \<Longrightarrow> - max_position_of (config st) \<le> current_position st \<Longrightarrow>
     - max_position_of (config st) \<le> current_position st - mr_sized_quantity st sg p"
  unfolding mr_sized_quantity_def Let_def max_position_of_def
  by (cases "sg = BUY"; simp only: if_True if_False clamp_quantity_bounds; fail)+

lemma momentum_sized_quantity_bounds:
  "0 \<le> momentum_sized_quantity st sg p"
  "sg = BUY \<Longrightarrow> current_position st \<le> max_position_of (config st) \<Longrightarrow>
     current_position st + momentum_sized_quantity st sg p \<le> max_position_of (config st)"
  "sg \<noteq> BUY \<Longrightarrow> - max_position_of (config st) \<le> current_position st \<Longrightarrow>
     - max_position_of (config st) \<le> current_position st - momentum_sized_quantity st sg p"
  unfolding momentum_sized_quantity_def Let_def max_position_of_def
  by (cases "sg = BUY"; simp only: if_True if_False clamp_quantity_bounds; fail)+

lemma mr_calculate_position_size_within:
  assumes "within_max_position (config st) (current_position st)"
  shows "within_max_position (config (snd (mr_calculate_position_size st sg md)))
           (current_position (snd (mr_calculate_position_size st sg md)))"
proof -
  let ?p = "dict_get md ''price'' 1"
  note b = mr_sized_quantity_bounds[where st = st and sg = sg and p = "?p"]
  from assms have lo: "- max_position_of (config st) \<le> current_position st"
    and hi: "current_position st \<le> max_position_of (config st)"
    by (simp_all add: within_max_position_def)
  show ?thesis
  proof (cases sg)
    case BUY
    with b(1) b(2)[OF BUY hi] lo show ?thesis
      by (simp add: mr_calculate_position_size_def Let_def within_max_position_def)
  next
    case SELL
    with b(1) b(3)[OF _ lo] hi show ?thesis
      by (simp add: mr_calculate_position_size_def Let_def within_max_position_def)
  next
    case HOLD
    with assms show ?thesis
      by (simp add: mr_calculate_position_size_def Let_def)
  qed
qed

lemma momentum_calculate_position_size_within:
  assumes "within_max_position (config st) (current_position st)"
  shows "within_max_position (config (snd (momentum_calculate_position_size st sg md)))
           (current_position (snd (momentum_calculate_position_size st sg md)))"
proof -
  let ?p = "dict_get md ''price'' 1"
  note b = momentum_sized_quantity_bounds[where st = st and sg = sg and p = "?p"]
  from assms have lo: "- max_position_of (config st) \<le> current_position st"
    and hi: "current_position st \<le> max_position_of (config st)"
    by (simp_all add: within_max_position_def)
  show ?thesis
  proof (cases sg)
    case BUY
    with b(1) b(2)[OF BUY hi] lo show ?thesis
      by (simp add: momentum_calculate_position_size_def Let_def within_max_position_def)
  next
    case SELL
    with b(1) b(3)[OF _ lo] hi show ?thesis
      by (simp add: momentum_calculate_position_size_def Let_def within_max_position_def)
  next
    case HOLD
    with assms show ?thesis
      by (simp add: momentum_calculate_position_size_def Let_def)
  qed
qed

text \<open>
  The mean-reversion and momentum strategies keep the position within
  \<open>[- max_position, max_position]\<close> over any sequence of signals.
\<close>

lemma mr_size_all_within:
  "within_max_position (config st) (current_position st) \<Longrightarrow>
   within_max_position (config (mr_size_all st sigs)) (current_position (mr_size_all st sigs))"
proof (induction sigs arbitrary: st)
  case Nil
  then show ?case by simp
next
  case (Cons a sigs)
  obtain sg md where a: "a = (sg, md)" by (cases a)
  from Cons.IH[OF mr_calculate_position_size_within[OF Cons.prems, of sg md]] a
  show ?case by simp
qed

lemma momentum_size_all_within:
  "within_max_position (config st) (current_position st) \<Longrightarrow>
   within_max_position (config (momentum_size_all st sigs))
     (current_position (momentum_size_all st sigs))"
proof (induction sigs arbitrary: st)
  case Nil
  then show ?case by simp
next
  case (Cons a sigs)
  obtain sg md where a: "a = (sg, md)" by (cases a)
  from Cons.IH[OF momentum_calculate_position_size_within[OF Cons.prems, of sg md]] a
  show ?case by simp
qed

text \<open>
  C1, at the grid strategy. The grid's \<open>calculate_position_size\<close> cuts the
  quantity only against the upper bound, also for a SELL. On a valid configuration with
  \<open>max_position = 1\<close>, the two sell levels at 50000 and 51000 fire on two ticks and
  leave the position at \<open>- 101/51\<close>, below \<open>- max_position\<close>; two SELL signals passed
  directly through \<open>calculate_position_size\<close> at price 50000 leave it at \<open>- 2\<close>.
\<close>

theorem grid_position_below_minus_max:
  "grid_validate_config grid_tight_config \<and>
   (case grid_start (grid_init grid_tight_config) of (started, st0) \<Rightarrow>
      case grid_execute st0 [''price'' \<mapsto> 50000] of (signal1, st1) \<Rightarrow>
        case grid_execute st1 [''price'' \<mapsto> 51000] of (signal2, st2) \<Rightarrow>
          started \<and> signal1 = Some SELL \<and> signal2 = Some SELL \<and>
          within_max_position (config st0) (current_position st0) \<and>
          current_position st1 = - 1 \<and>
          current_position st2 = - (101 / 51) \<and>
          \<not> within_max_position (config st2) (current_position st2)) \<and>
   current_position
     (grid_size_all (grid_init grid_tight_config)
        [(SELL, [''price'' \<mapsto> 50000]), (SELL, [''price'' \<mapsto> 50000])]) = - 2 \<and>
   \<not> within_max_position grid_tight_config (- 2)"
  by code_simp

section \<open>Relative strength index\<close>













text \<open>
  Without the condition on the period the value can be \<open>nan\<close>: with
  \<open>rsi_period = 0\<close> and a single price both averages are taken over empty slices.
\<close>

lemma calculate_rsi_period_zero:
  "calculate_rsi ((momentum_init [''rsi_period'' \<mapsto> 0])\<lparr>price_history := [100]\<rparr>) = Some Nan"
  by code_simp

section \<open>Risk gate\<close>

subsection \<open>Times of day as texts\<close>










subsection \<open>Which checks raise\<close>

lemma then_check_simps [simp]:
  "then_check (Inl e) f = Inl e"
  "then_check (Inr v) f = f v"
  by (simp_all add: then_check_def)

lemma then_check_isl: "isl (then_check m f) \<longleftrightarrow> isl m \<or> isl (f (projr m))"
  by (cases m) simp_all

lemma check_trading_hours_raises:
  assumes "trading_hours_start rp \<noteq> None" "trading_hours_end rp \<noteq> None"
  shows "\<not> isl (check_trading_hours now rp)"
  using assms by (auto simp: check_trading_hours_def Let_def split: if_splits)


lemma check_position_limits_raises:
  "isl (check_position_limits rp req) \<longleftrightarrow> max_positions rp = None \<or> max_position_size rp = None"
  by (simp add: check_position_limits_def Let_def split: option.splits)

lemma loss_step_raises: "isl (loss_step pnl limit message key acc) \<longleftrightarrow> limit = None"
  by (simp add: loss_step_def split: option.splits)

lemma loss_step_None [simp]:
  "loss_step pnl None message key acc = Inl (bad_unary_minus NoneType)"
  by (simp add: loss_step_def)

lemma loss_step_Some [simp]:
  "loss_step pnl (Some l) message key acc =
     Inr (if pnl < - l then (fst acc @ [message], (snd acc)(key \<mapsto> ''$'' @ format_2f pnl))
          else acc)"
  by (simp add: loss_step_def)

lemma check_loss_limits_on_raises:
  "isl (check_loss_limits_on pnl rp) \<longleftrightarrow>
     daily_loss_limit rp = None \<or> weekly_loss_limit rp = None \<or>
     monthly_loss_limit rp = None \<or> total_loss_limit rp = None"
proof (cases "daily_loss_limit rp")
  case None
  then show ?thesis by (simp add: check_loss_limits_on_def)
next
  case d: (Some d)
  show ?thesis
  proof (cases "weekly_loss_limit rp")
    case None
    with d show ?thesis by (simp add: check_loss_limits_on_def)
  next
    case w: (Some w)
    show ?thesis
    proof (cases "monthly_loss_limit rp")
      case None
      with d w show ?thesis by (simp add: check_loss_limits_on_def)
    next
      case m: (Some m)
      show ?thesis
      proof (cases "total_loss_limit rp")
        case None
        with d w m show ?thesis by (simp add: check_loss_limits_on_def)
      next
        case (Some t)
        with d w m show ?thesis by (simp add: check_loss_limits_on_def)
      qed
    qed
  qed
qed

lemma check_volatility_raises:
  "isl (check_volatility rp req) \<longleftrightarrow> max_volatility_threshold rp = None"
  by (simp add: check_volatility_def Let_def split: option.splits)

lemma calculate_risk_score_returns:
  assumes "max_position_size rp \<noteq> None"
  shows "\<not> isl (calculate_risk_score rp req factors)"
  using assms by (auto simp: calculate_risk_score_def split: option.splits)

lemma suggest_quantity_returns:
  assumes "max_position_size rp \<noteq> None"
  shows "\<not> isl (suggest_quantity rp req)"
  using assms by (auto simp: suggest_quantity_def split: option.splits)

lemma build_response_returns:
  assumes "max_position_size rp \<noteq> None"
  shows "\<not> isl (build_response rp req found volatility_check)"
proof -
  obtain s where s: "calculate_risk_score rp req
        (if \<not> allowed volatility_check
         then (snd found)(''volatility'' \<mapsto> Details (details volatility_check))
         else snd found) = Inr s"
    using calculate_risk_score_returns[OF assms] by (metis isl_def sum.collapse(2))
  obtain q where q: "suggest_quantity rp req = Inr q"
    using suggest_quantity_returns[OF assms] by (metis isl_def sum.collapse(2))
  show ?thesis
    by (simp add: build_response_def Let_def s q)
qed

lemma evaluate_trade_on_raises:
  "isl (evaluate_trade_on pnl rp now req) \<longleftrightarrow>
     isl (check_trading_hours now rp) \<or> \<not> limits_set rp"
proof (cases "limits_set rp")
  case True
  then have size: "max_position_size rp \<noteq> None" by (simp add: limits_set_def)
  from True have "\<not> isl (check_position_limits rp req)"
    and "\<not> isl (check_loss_limits_on pnl rp)"
    and "\<not> isl (check_volatility rp req)"
    by (simp_all add: limits_set_def check_position_limits_raises check_loss_limits_on_raises
        check_volatility_raises)
  with True show ?thesis
    by (simp add: evaluate_trade_on_def then_check_isl build_response_returns[OF size])
next
  case False
  have "isl (evaluate_trade_on pnl rp now req)"
  proof (rule ccontr)
    assume n: "\<not> isl (evaluate_trade_on pnl rp now req)"
    then have a: "\<not> isl (check_position_limits rp req)"
      and b: "\<not> isl (check_loss_limits_on pnl rp)"
      and c: "\<not> isl (check_volatility rp req)"
      by (simp_all add: evaluate_trade_on_def then_check_isl)
    from a b c have "limits_set rp"
      by (simp add: limits_set_def check_position_limits_raises check_loss_limits_on_raises
          check_volatility_raises)
    with False show False by simp
  qed
  with False show ?thesis by simp
qed


lemma check_trade_risk_on_returned:
  assumes "\<not> isl (evaluate_trade_on pnl rp now req)"
  shows "check_trade_risk_on pnl (Inr (Some rp)) now req
           = projr (evaluate_trade_on pnl rp now req)"
  using assms by (cases "evaluate_trade_on pnl rp now req") (simp_all add: check_trade_risk_on_def)

subsection \<open>The risk score\<close>

lemma calculate_risk_score_range:
  assumes "calculate_risk_score rp req factors = Inr s"
  shows "0 \<le> s \<and> s \<le> 100"
  using assms
  by (auto simp: calculate_risk_score_def then_check_def split: option.splits if_splits sum.splits)

lemma build_response_fields:
  assumes "build_response rp req found volatility_check = Inr r"
  shows "0 \<le> risk_score r \<and> risk_score r \<le> 100"
    and "is_allowed r \<longleftrightarrow> fst found = []"
    and "errors r = fst found"
    and "dom (snd found) \<subseteq> dom (risk_factors r)"
proof -
  let ?factors = "if \<not> allowed volatility_check
         then (snd found)(''volatility'' \<mapsto> Details (details volatility_check))
         else snd found"
  from assms obtain s where s: "calculate_risk_score rp req ?factors = Inr s"
    by (cases "calculate_risk_score rp req ?factors") (simp_all add: build_response_def Let_def)
  from assms s obtain q where
    r: "r = \<lparr>is_allowed = (length (fst found) = 0),
              risk_score = s,
              warnings = (if \<not> allowed volatility_check then messages volatility_check else []),
              errors = fst found,
              suggested_quantity = q,
              suggested_price =
                (if length (fst found) = 0 then None else suggest_price rp req),
              risk_factors = ?factors\<rparr>"
    by (cases "if length (fst found) = 0 then Inr None else suggest_quantity rp req")
       (auto simp: build_response_def Let_def)
  from calculate_risk_score_range[OF s] r
  show "0 \<le> risk_score r \<and> risk_score r \<le> 100" by simp
  from r show "is_allowed r \<longleftrightarrow> fst found = []" by simp
  from r show "errors r = fst found" by simp
  from r show "dom (snd found) \<subseteq> dom (risk_factors r)" by auto
qed

lemma evaluate_trade_on_findings:
  assumes "evaluate_trade_on pnl rp now req = Inr r"
  obtains in_hours position_check loss_check volatility_check
  where "check_trading_hours now rp = Inr in_hours"
    and "check_position_limits rp req = Inr position_check"
    and "check_loss_limits_on pnl rp = Inr loss_check"
    and "check_volatility rp req = Inr volatility_check"
    and "build_response rp req
           (add_findings ''loss_limits'' loss_check
              (add_findings ''position_limits'' position_check (hours_findings in_hours)))
           volatility_check = Inr r"
proof -
  from assms obtain h where h: "check_trading_hours now rp = Inr h"
    by (cases "check_trading_hours now rp") (simp_all add: evaluate_trade_on_def)
  from assms h obtain p where p: "check_position_limits rp req = Inr p"
    by (cases "check_position_limits rp req") (simp_all add: evaluate_trade_on_def)
  from assms h p obtain l where l: "check_loss_limits_on pnl rp = Inr l"
    by (cases "check_loss_limits_on pnl rp") (simp_all add: evaluate_trade_on_def)
  from assms h p l obtain v where v: "check_volatility rp req = Inr v"
    by (cases "check_volatility rp req") (simp_all add: evaluate_trade_on_def)
  from assms h p l v that show ?thesis by (simp add: evaluate_trade_on_def)
qed



subsection \<open>Outside the trading hours\<close>










text \<open>
  C10. Without an active risk profile the trade is denied, whatever the request and
  the time: \<open>is_allowed = False\<close>, \<open>risk_score = 100\<close>, the single error
  \<open>No risk profile found\<close>, and no warning, suggestion or risk factor, since none
  of the four checks is run.
\<close>

theorem check_trade_risk_no_profile:
  "check_trade_risk (Inr None) now req =
     \<lparr>is_allowed = False, risk_score = 100, warnings = [],
      errors = [''No risk profile found''],
      suggested_quantity = None, suggested_price = None, risk_factors = Map.empty\<rparr>"
  by (simp add: check_trade_risk_def check_trade_risk_on_def)

subsection \<open>The daily loss limit\<close>

lemma check_position_limits_no_daily:
  assumes "check_position_limits rp req = Inr position_check"
  shows "''Daily loss limit exceeded'' \<notin> set (messages position_check)"
  using assms
  by (auto simp: check_position_limits_def Let_def split: option.splits if_splits)

lemma check_loss_limits_on_daily:
  assumes "check_loss_limits_on pnl rp = Inr loss_check" and "daily_loss_limit rp = Some l"
  shows "''Daily loss limit exceeded'' \<in> set (messages loss_check) \<longleftrightarrow> daily_pnl pnl < - l"
    and "allowed loss_check \<longleftrightarrow> messages loss_check = []"
proof -
  from assms(1) obtain w where w: "weekly_loss_limit rp = Some w"
    using check_loss_limits_on_raises[of pnl rp] by (cases "weekly_loss_limit rp") auto
  from assms(1) obtain m where m: "monthly_loss_limit rp = Some m"
    using check_loss_limits_on_raises[of pnl rp] by (cases "monthly_loss_limit rp") auto
  from assms(1) obtain t where t: "total_loss_limit rp = Some t"
    using check_loss_limits_on_raises[of pnl rp] by (cases "total_loss_limit rp") auto
  from assms w m t
  show "''Daily loss limit exceeded'' \<in> set (messages loss_check) \<longleftrightarrow> daily_pnl pnl < - l"
    by (auto simp: check_loss_limits_on_def split: if_splits)
  from assms w m t show "allowed loss_check \<longleftrightarrow> messages loss_check = []"
    by (auto simp: check_loss_limits_on_def split: if_splits)
qed

lemma evaluate_trade_on_daily:
  assumes r: "evaluate_trade_on pnl rp now req = Inr r" and l: "daily_loss_limit rp = Some l"
  shows "''Daily loss limit exceeded'' \<in> set (errors r) \<longleftrightarrow> daily_pnl pnl < - l"
proof -
  from r obtain in_hours position_check loss_check volatility_check
    where p: "check_position_limits rp req = Inr position_check"
      and lc: "check_loss_limits_on pnl rp = Inr loss_check"
      and b: "build_response rp req
           (add_findings ''loss_limits'' loss_check
              (add_findings ''position_limits'' position_check (hours_findings in_hours)))
           volatility_check = Inr r"
    by (rule evaluate_trade_on_findings)
  have e: "errors r = fst (add_findings ''loss_limits'' loss_check
              (add_findings ''position_limits'' position_check (hours_findings in_hours)))"
    by (rule build_response_fields(3)[OF b])
  have "''Daily loss limit exceeded'' \<in> set (errors r) \<longleftrightarrow>
          ''Daily loss limit exceeded'' \<in> set (messages loss_check)"
    unfolding e
    using check_position_limits_no_daily[OF p] check_loss_limits_on_daily(2)[OF lc l]
    by (auto simp: add_findings_def hours_findings_def)
  with check_loss_limits_on_daily(1)[OF lc l] show ?thesis by simp
qed

lemma risk_check_error_no_daily:
  "''Daily loss limit exceeded'' \<notin> set (errors (risk_check_error e))"
  by (simp add: risk_check_error_def)

text \<open>
  C6, where the claim fails. For a profile with a daily loss limit of 1000, the column
  defaults otherwise, a limit buy on a Wednesday at noon is allowed and no error is
  reported: \<open>check_trade_risk\<close> is given no profit-and-loss figures, and the daily figure
  that its loss check compares with the limit is the literal 2500 of the source.
\<close>

theorem daily_loss_limit_1000_allowed:
  "daily_loss_limit default_risk_profile = Some 1000 \<and>
   is_allowed (check_trade_risk (Inr (Some default_risk_profile))
                 \<lparr>weekday = 2, hour = 12, minute = 0\<rparr> small_limit_order) \<and>
   errors (check_trade_risk (Inr (Some default_risk_profile))
                 \<lparr>weekday = 2, hour = 12, minute = 0\<rparr> small_limit_order) = []"
  by code_simp

text \<open>
  C6, as the code has it. Under a daily loss limit of 1000, no response of
  \<open>check_trade_risk\<close> carries the error \<open>Daily loss limit exceeded\<close>, at any time and
  for any request, since the figure compared is fixed in the source. The comparison is
  the one the claim describes: the body of the gate run on figures with a daily loss
  of 1500 denies the trade, and reports \<open>Daily loss limit exceeded\<close> among the errors
  when every limit and both times of day of the profile are set, so that no check
  raises.
\<close>

theorem daily_loss_limit_fixed_figures:
  assumes "daily_loss_limit rp = Some 1000"
  shows "''Daily loss limit exceeded''
           \<notin> set (errors (check_trade_risk (Inr (Some rp)) now req)) \<and>
         (daily_pnl pnl = - 1500 \<and> limits_set rp \<and> hours_set rp \<longrightarrow>
            \<not> is_allowed (check_trade_risk_on pnl (Inr (Some rp)) now req) \<and>
            ''Daily loss limit exceeded''
              \<in> set (errors (check_trade_risk_on pnl (Inr (Some rp)) now req)))"
proof -
  have never: "''Daily loss limit exceeded''
                 \<notin> set (errors (check_trade_risk (Inr (Some rp)) now req))"
  proof (cases "evaluate_trade_on mock_pnl rp now req")
    case (Inl e)
    then show ?thesis
      by (simp add: check_trade_risk_def check_trade_risk_on_def risk_check_error_def)
  next
    case (Inr r)
    from evaluate_trade_on_daily[OF Inr assms] have "''Daily loss limit exceeded'' \<notin> set (errors r)"
      by (simp add: mock_pnl_def)
    with Inr show ?thesis by (simp add: check_trade_risk_def check_trade_risk_on_def)
  qed
  have blocks: "\<not> is_allowed (check_trade_risk_on pnl (Inr (Some rp)) now req) \<and>
                ''Daily loss limit exceeded''
                  \<in> set (errors (check_trade_risk_on pnl (Inr (Some rp)) now req))"
    if "daily_pnl pnl = - 1500" "limits_set rp" "hours_set rp"
  proof -
    from that(3) have "\<not> isl (check_trading_hours now rp)"
      by (simp add: hours_set_def check_trading_hours_raises)
    with that(2) have "\<not> isl (evaluate_trade_on pnl rp now req)"
      by (simp add: evaluate_trade_on_raises)
    then obtain r where r: "evaluate_trade_on pnl rp now req = Inr r"
      by (cases "evaluate_trade_on pnl rp now req") simp_all
    from evaluate_trade_on_daily[OF r assms] that(1)
    have d: "''Daily loss limit exceeded'' \<in> set (errors r)" by simp
    from r obtain found volatility_check
      where b: "build_response rp req found volatility_check = Inr r"
      by (rule evaluate_trade_on_findings)
    from build_response_fields(2,3)[OF b] d have "\<not> is_allowed r" by auto
    with d r show ?thesis by (simp add: check_trade_risk_on_def)
  qed
  from never blocks show ?thesis by blast
qed

theorem daily_loss_limit_fixed_figures_witness:
  "daily_loss_limit default_risk_profile = Some 1000 \<and>
   daily_pnl losing_day = - 1500 \<and> limits_set default_risk_profile \<and>
   hours_set default_risk_profile \<and>
   ''Daily loss limit exceeded''
     \<notin> set (errors (check_trade_risk (Inr (Some default_risk_profile))
                      \<lparr>weekday = 2, hour = 12, minute = 0\<rparr> small_limit_order)) \<and>
   \<not> is_allowed (check_trade_risk_on losing_day (Inr (Some default_risk_profile))
                   \<lparr>weekday = 2, hour = 12, minute = 0\<rparr> small_limit_order) \<and>
   ''Daily loss limit exceeded''
     \<in> set (errors (check_trade_risk_on losing_day (Inr (Some default_risk_profile))
                      \<lparr>weekday = 2, hour = 12, minute = 0\<rparr> small_limit_order))"
proof -
  have h: "daily_loss_limit default_risk_profile = Some 1000"
    by (simp add: default_risk_profile_def)
  have p: "daily_pnl losing_day = - 1500" by (simp add: losing_day_def)
  have l: "limits_set default_risk_profile"
    by (simp add: limits_set_def default_risk_profile_def)
  have t: "hours_set default_risk_profile"
    by (simp add: hours_set_def default_risk_profile_def)
  from daily_loss_limit_fixed_figures
         [OF h, of "\<lparr>weekday = 2, hour = 12, minute = 0\<rparr>" small_limit_order losing_day]
       h p l t
  show ?thesis by blast
qed

section \<open>Configuration updates\<close>

lemma update_config_rejected:
  assumes "self_config < next_ref h"
    and "\<not> validate_config kind (dicts h self_config ++ new_config)"
  shows "update_config kind h self_config new_config =
           (False,
            h\<lparr>dicts := (dicts h)(next_ref h := dicts h self_config,
                                  self_config := dicts h self_config ++ new_config),
              next_ref := Suc (next_ref h)\<rparr>,
            next_ref h)"
  using assms by (simp add: update_config_def dict_copy_def dict_update_def)

lemma update_config_accepted:
  assumes "self_config < next_ref h"
    and "validate_config kind (dicts h self_config ++ new_config)"
  shows "update_config kind h self_config new_config =
           (True,
            h\<lparr>dicts := (dicts h)(next_ref h := dicts h self_config,
                                  self_config := dicts h self_config ++ new_config),
              next_ref := Suc (next_ref h)\<rparr>,
            self_config)"
  using assms by (simp add: update_config_def dict_copy_def dict_update_def)

text \<open>
  C9. \<open>update_config\<close> for a strategy of any of the three types and any proposed
  configuration: it returns whether the merged configuration validates; when it does
  not, the strategy's configuration afterwards is exactly the one it held before the
  call; when it does, it is the merged one.
\<close>

theorem update_config_all_or_nothing:
  assumes "self_config < next_ref h"
  shows "case update_config kind h self_config new_config of
           (ok, h', config') \<Rightarrow>
             (ok \<longleftrightarrow> validate_config kind (dicts h self_config ++ new_config)) \<and>
             (\<not> validate_config kind (dicts h self_config ++ new_config) \<longrightarrow>
                dicts h' config' = dicts h self_config) \<and>
             (validate_config kind (dicts h self_config ++ new_config) \<longrightarrow>
                dicts h' config' = dicts h self_config ++ new_config)"
proof (cases "validate_config kind (dicts h self_config ++ new_config)")
  case True
  with update_config_accepted[OF assms True] show ?thesis by simp
next
  case False
  with update_config_rejected[OF assms False] assms show ?thesis by simp
qed

theorem update_config_all_or_nothing_witness:
  "(0 :: nat) < next_ref scenario_store \<and>
   \<not> validate_config GRID (dicts scenario_store 0 ++ [''grid_spacing'' \<mapsto> - 5]) \<and>
   (case update_config GRID scenario_store 0 [''grid_spacing'' \<mapsto> - 5] of
      (ok, h', config') \<Rightarrow> \<not> ok \<and> dicts h' config' = grid_scenario_config) \<and>
   validate_config GRID (dicts scenario_store 0 ++ [''grid_spacing'' \<mapsto> 500]) \<and>
   (case update_config GRID scenario_store 0 [''grid_spacing'' \<mapsto> 500] of
      (ok, h', config') \<Rightarrow>
        ok \<and> dicts h' config' = grid_scenario_config ++ [''grid_spacing'' \<mapsto> 500])"
proof -
  have a: "(0 :: nat) < next_ref scenario_store"
    by (simp add: scenario_store_def)
  have d: "dicts scenario_store 0 = grid_scenario_config"
    by (simp add: scenario_store_def)
  have w1: "\<not> validate_config GRID (dicts scenario_store 0 ++ [''grid_spacing'' \<mapsto> - 5])"
    by (simp add: validate_config_def scenario_store_def grid_validate_config_def
          grid_scenario_config_def)
  have w2: "validate_config GRID (dicts scenario_store 0 ++ [''grid_spacing'' \<mapsto> 500])"
    by (simp add: validate_config_def scenario_store_def grid_validate_config_def
          grid_scenario_config_def)
  from update_config_all_or_nothing [OF a, of GRID "[''grid_spacing'' \<mapsto> - 5]"] w1
  have r1: "case update_config GRID scenario_store 0 [''grid_spacing'' \<mapsto> - 5] of
              (ok, h', config') \<Rightarrow> \<not> ok \<and> dicts h' config' = grid_scenario_config"
    by (auto simp: d split: prod.splits)
  from update_config_all_or_nothing [OF a, of GRID "[''grid_spacing'' \<mapsto> 500]"] w2
  have r2: "case update_config GRID scenario_store 0 [''grid_spacing'' \<mapsto> 500] of
              (ok, h', config') \<Rightarrow>
                ok \<and> dicts h' config' = grid_scenario_config ++ [''grid_spacing'' \<mapsto> 500]"
    by (auto simp: d split: prod.splits)
  from a w1 r1 w2 r2 show ?thesis by blast
qed

text \<open>
  The merge is done in place: whatever the outcome, the dictionary object that the
  strategy referred to before the call holds the merged configuration afterwards. After
  a rejected update the strategy refers to the copy instead.
\<close>

lemma update_config_shared_dict:
  assumes "self_config < next_ref h"
  shows "case update_config kind h self_config new_config of
           (ok, h', config') \<Rightarrow> dicts h' self_config = dicts h self_config ++ new_config"
  using assms
  by (simp add: update_config_def dict_copy_def dict_update_def Let_def)

section \<open>Binance adapter\<close>















end
